theory Spec2Isabelle
  imports Main
begin

section \<open>JavaScript values, errors and identities\<close>

text \<open>
  The queue and its two mutexes are JavaScript. Three features of the language decide
  what the code does and are therefore part of the model:
  \<^item> a condition \<^verbatim>\<open>if (x)\<close> tests truthiness: \<^verbatim>\<open>null\<close>, \<^verbatim>\<open>undefined\<close>, \<^verbatim>\<open>false\<close>,
    \<^verbatim>\<open>0\<close> and the empty string are falsy;
  \<^item> a \<^verbatim>\<open>throw\<close> leaves the object as it was when the throw was reached: a function
    that may throw returns the error (if any) together with the state;
  \<^item> a callback handed to \<^verbatim>\<open>setTimeout\<close>, \<^verbatim>\<open>_.defer\<close> or an asynchronous \<^verbatim>\<open>fs\<close>
    call does not run inside the call that registers it: functions return the list of
    what they registered, and the event loop of the last sections runs them one by one.
\<close>

datatype jsval =
    JUndefined
  | JNull
  | JBool bool
  | JNum int
  | JStr string
  | JObj "(string \<times> jsval) list"

fun truthy :: "jsval \<Rightarrow> bool" where
  "truthy JUndefined = False"
| "truthy JNull = False"
| "truthy (JBool b) = b"
| "truthy (JNum n) = (n \<noteq> 0)"
| "truthy (JStr s) = (s \<noteq> [])"
| "truthy (JObj kvs) = True"

text \<open>
  \<^verbatim>\<open>lib/errors/Error.js\<close> and its subclasses: an error object has a class (what
  \<^verbatim>\<open>instanceof\<close> sees), a \<^verbatim>\<open>name\<close> set by the constructor and a \<^verbatim>\<open>message\<close>. The second
  constructor argument (\<^verbatim>\<open>err\<close>, for internal use) plays no role in any decision of the
  queue and is left out. \<open>NativeErrorC\<close> is any error that is not a \<^verbatim>\<open>BaseError\<close>
  (a \<^verbatim>\<open>TypeError\<close>, an error of \<^verbatim>\<open>fs\<close>).
\<close>

datatype err_class = BaseErrorC | ParamErrorC | ProxyErrorC | InternalErrorC | NativeErrorC

datatype js_error = JsError (cls: err_class) (ename: string) (emessage: string)

definition InternalError :: "string \<Rightarrow> js_error" where
  "InternalError msg = JsError InternalErrorC ''internal error'' msg"

definition ParamError :: "string \<Rightarrow> js_error" where
  "ParamError msg = JsError ParamErrorC ''parameter error'' msg"

definition ProxyError :: "string \<Rightarrow> js_error" where
  "ProxyError msg = JsError ProxyErrorC ''proxy error'' msg"

definition TypeError :: "string \<Rightarrow> js_error" where
  "TypeError msg = JsError NativeErrorC ''TypeError'' msg"

definition FsError :: "string \<Rightarrow> js_error" where
  "FsError code = JsError NativeErrorC ''Error'' code"

text \<open>\<^verbatim>\<open>Error.prototype.toString\<close>, which the error classes inherit unchanged.\<close>

definition toString :: "js_error \<Rightarrow> string" where
  "toString e =
     (if ename e = [] then emessage e
      else if emessage e = [] then ename e
      else ename e @ '': '' @ emessage e)"

type_synonym ident = string

text \<open>\<^verbatim>\<open>if (this.lockedBy)\<close>: the field holds \<^verbatim>\<open>null\<close> or the owner's id, a string.\<close>

definition truthy_id :: "ident option \<Rightarrow> bool" where
  "truthy_id l = (case l of None \<Rightarrow> False | Some i \<Rightarrow> i \<noteq> [])"

section \<open>The in-memory mutex (\<^verbatim>\<open>Mutex.js\<close>)\<close>

text \<open>
  The mutex whose only fields are \<^verbatim>\<open>lockedBy\<close> and \<^verbatim>\<open>queue\<close>.
  A waiter is the object \<^verbatim>\<open>{id: id, callback: callback}\<close> pushed on \<^verbatim>\<open>this.queue\<close>; the
  callback may be missing. Callbacks are values of a type \<open>'cb\<close> chosen by the user of
  the mutex.
\<close>

record 'cb waiter =
  wid :: ident
  wcallback :: "'cb option"

record 'cb mutex =
  lockedBy :: "ident option"
  queue :: "'cb waiter list"

definition Mutex_new :: "'cb mutex" where
  "Mutex_new = \<lparr>lockedBy = None, queue = []\<rparr>"

definition timeouts :: "'cb option \<Rightarrow> 'cb list" where
  \<comment> \<open>\<^verbatim>\<open>if (callback) { setTimeout(function () { callback(); }, 0); }\<close>\<close>
  "timeouts cb = (case cb of None \<Rightarrow> [] | Some c \<Rightarrow> [c])"

text \<open>
  \<^verbatim>\<open>Mutex.prototype.lock\<close>. The result is the mutex and the callbacks registered with
  \<^verbatim>\<open>setTimeout\<close> by this call.
\<close>

definition mutex_lock :: "'cb mutex \<Rightarrow> ident \<Rightarrow> 'cb option \<Rightarrow> 'cb mutex \<times> 'cb list" where
  "mutex_lock m i cb =
     (if truthy_id (lockedBy m)
      then (m\<lparr>queue := queue m @ [\<lparr>wid = i, wcallback = cb\<rparr>]\<rparr>, [])
      else (m\<lparr>lockedBy := Some i\<rparr>, timeouts cb))"

definition not_owner_msg :: string where
  "not_owner_msg = ''Mutex has been locked by someone else and cannot be unlocked''"

text \<open>
  \<^verbatim>\<open>Mutex.prototype.unlock\<close>. The first component is the error thrown, if any; the last one
  the callbacks registered with \<^verbatim>\<open>setTimeout\<close>.
\<close>

definition mutex_unlock ::
  "'cb mutex \<Rightarrow> ident \<Rightarrow> js_error option \<times> 'cb mutex \<times> 'cb list" where
  "mutex_unlock m i =
     (if lockedBy m \<noteq> Some i then (Some (InternalError not_owner_msg), m, [])
      else (case queue m of
              [] \<Rightarrow> (None, m\<lparr>lockedBy := None\<rparr>, [])
            | next # rest \<Rightarrow>
                (None, m\<lparr>lockedBy := Some (wid next), queue := rest\<rparr>,
                 timeouts (wcallback next))))"

section \<open>The file mutex (\<^verbatim>\<open>FileMutex.js\<close>)\<close>

text \<open>
  The mutex that \<^verbatim>\<open>filequeue.js\<close> loads as \<^verbatim>\<open>./FileMutex\<close>.
  The file mutex has the two fields of the in-memory one, the name of the lock file and
  the descriptor \<^verbatim>\<open>fd\<close> (\<^verbatim>\<open>null\<close> until the file is opened).
\<close>

record 'cb fmutex = "'cb mutex" +
  filename :: string
  fd :: "nat option"

definition FileMutex_new :: "string \<Rightarrow> 'cb fmutex" where
  "FileMutex_new f = \<lparr>lockedBy = None, queue = [], filename = f, fd = None\<rparr>"

definition truthy_fd :: "nat option \<Rightarrow> bool" where
  \<comment> \<open>\<^verbatim>\<open>if (!this.fd)\<close>\<close>
  "truthy_fd d = (case d of None \<Rightarrow> False | Some n \<Rightarrow> n \<noteq> 0)"

text \<open>A call of \<^verbatim>\<open>fs.flock(this.fd, 'ex', ...)\<close> whose callback has not run yet.\<close>

datatype 'cb flock_req = Flock ident "'cb option"

text \<open>
  \<^verbatim>\<open>Mutex.prototype.lock\<close> of the file mutex, up to the call of \<^verbatim>\<open>fs.flock\<close>. \<open>opened\<close>
  is what \<^verbatim>\<open>fs.openSync(this.filename, 'w')\<close> does if it is called: it throws or returns
  a descriptor. The field \<^verbatim>\<open>lockedBy\<close> is not written here: it is written by the callback
  of \<^verbatim>\<open>fs.flock\<close>, see \<open>fm_flock_done\<close>.
\<close>

definition fm_lock ::
  "'cb fmutex \<Rightarrow> ident \<Rightarrow> 'cb option \<Rightarrow> js_error + nat \<Rightarrow>
     js_error option \<times> 'cb fmutex \<times> 'cb flock_req list" where
  "fm_lock m i cb opened =
     (if truthy_id (lockedBy m)
      then (None, m\<lparr>queue := queue m @ [\<lparr>wid = i, wcallback = cb\<rparr>]\<rparr>, [])
      else if truthy_fd (fd m) then (None, m, [Flock i cb])
      else (case opened of
              Inl e \<Rightarrow> (Some e, m, [])
            | Inr d \<Rightarrow> (None, m\<lparr>fd := Some d\<rparr>, [Flock i cb])))"

text \<open>
  The callback of \<^verbatim>\<open>fs.flock\<close> for the request \<open>Flock i cb\<close>; \<open>ok\<close> is false when
  \<^verbatim>\<open>err\<close> is set. On success the callback of the request is called at once (last
  component); calling a missing callback is a \<^verbatim>\<open>TypeError\<close>.
\<close>

definition fm_flock_done ::
  "'cb fmutex \<Rightarrow> ident \<Rightarrow> 'cb option \<Rightarrow> bool \<Rightarrow> js_error option \<times> 'cb fmutex \<times> 'cb list" where
  "fm_flock_done m i cb ok =
     (if \<not> ok then (None, m\<lparr>queue := queue m @ [\<lparr>wid = i, wcallback = cb\<rparr>]\<rparr>, [])
      else (case cb of
              None \<Rightarrow> (Some (TypeError ''callback is not a function''), m\<lparr>lockedBy := Some i\<rparr>, [])
            | Some c \<Rightarrow> (None, m\<lparr>lockedBy := Some i\<rparr>, [c])))"

text \<open>
  \<^verbatim>\<open>Mutex.prototype.unlock\<close> of the file mutex. \<^verbatim>\<open>fs.flockSync(this.fd, 'un')\<close> runs inside
  \<^verbatim>\<open>try { } catch (err) { }\<close> and changes no field.
\<close>

definition fm_unlock ::
  "'cb fmutex \<Rightarrow> ident \<Rightarrow> js_error option \<times> 'cb fmutex \<times> 'cb list" where
  "fm_unlock m i =
     (if lockedBy m \<noteq> Some i then (Some (InternalError not_owner_msg), m, [])
      else (case queue m of
              [] \<Rightarrow> (None, m\<lparr>lockedBy := None\<rparr>, [])
            | next # rest \<Rightarrow>
                (None, m\<lparr>lockedBy := Some (wid next), queue := rest\<rparr>,
                 timeouts (wcallback next))))"

section \<open>Clients of the in-memory mutex\<close>

text \<open>
  A sequence of calls of \<^verbatim>\<open>lock\<close> and \<^verbatim>\<open>unlock\<close> on a new in-memory mutex. The callback
  of a request is named by the id of the requester. Two lists are kept beside the
  mutex: \<open>grants\<close>, the callbacks scheduled so far, in order, and \<open>owners\<close>, the ids
  that have been granted the lock and have not released it. An \<^verbatim>\<open>unlock\<close> that throws
  changes nothing.
\<close>

datatype call = Lock ident | Unlock ident

fun lock_ids :: "call list \<Rightarrow> ident list" where
  "lock_ids [] = []"
| "lock_ids (Lock i # cs) = i # lock_ids cs"
| "lock_ids (Unlock i # cs) = lock_ids cs"

fun named :: "call \<Rightarrow> bool" where
  "named (Lock i) = (i \<noteq> [])"
| "named (Unlock i) = True"

record client =
  mtx :: "ident mutex"
  owners :: "ident list"
  grants :: "ident list"

fun mutex_call :: "client \<Rightarrow> call \<Rightarrow> client" where
  "mutex_call c (Lock i) =
     (case mutex_lock (mtx c) i (Some i) of
        (m, ts) \<Rightarrow> \<lparr>mtx = m, owners = owners c @ ts, grants = grants c @ ts\<rparr>)"
| "mutex_call c (Unlock i) =
     (case mutex_unlock (mtx c) i of
        (Some e, m, ts) \<Rightarrow> c
      | (None, m, ts) \<Rightarrow> \<lparr>mtx = m, owners = remove1 i (owners c) @ ts, grants = grants c @ ts\<rparr>)"

definition mutex_calls :: "call list \<Rightarrow> client" where
  "mutex_calls cs = foldl mutex_call \<lparr>mtx = Mutex_new, owners = [], grants = []\<rparr> cs"

definition holder_list :: "'cb mutex \<Rightarrow> ident list" where
  "holder_list m = (case lockedBy m of None \<Rightarrow> [] | Some i \<Rightarrow> [i])"

definition client_inv :: "client \<Rightarrow> bool" where
  "client_inv c =
     (owners c = holder_list (mtx c) \<and>
      (lockedBy (mtx c) = None \<longrightarrow> queue (mtx c) = []) \<and>
      lockedBy (mtx c) \<noteq> Some [] \<and>
      (\<forall>w \<in> set (queue (mtx c)). wid w \<noteq> [] \<and> wcallback w = Some (wid w)))"

section \<open>Tasks and the durable store\<close>

datatype status = Pending | Running | Success | Failure

text \<open>
  A task is the object built by \<^verbatim>\<open>push\<close> and completed by \<^verbatim>\<open>runTask\<close>; a field that has
  not been assigned is \<open>None\<close>.
\<close>

record task =
  task_id :: ident
  params :: jsval
  status :: status
  dateCreated :: string
  error :: "string option"
  errorCode :: "nat option"
  result :: "jsval option"
  dateFinished :: "string option"

text \<open>
  The content of a file is the JSON text of a task or something that \<^verbatim>\<open>JSON.parse\<close>
  rejects. \<^verbatim>\<open>JSON.stringify\<close> followed by \<^verbatim>\<open>JSON.parse\<close> is taken to give the task back.
\<close>

datatype content = Json task | Corrupt

definition JSON_parse :: "content \<Rightarrow> js_error + task" where
  "JSON_parse c =
     (case c of Json t \<Rightarrow> Inr t | Corrupt \<Rightarrow> Inl (JsError NativeErrorC ''SyntaxError'' ''Unexpected token''))"

text \<open>
  The three folders \<^verbatim>\<open>id\<close>, \<^verbatim>\<open>pending\<close> and \<^verbatim>\<open>running\<close> under the base folder. A folder
  is the list of its files, in the order \<^verbatim>\<open>fs.readdir\<close> reports them; \<open>folders_exist\<close>
  says whether the base folder and the three folders have been created.
\<close>

datatype folder = IdDir | PendingDir | RunningDir

type_synonym dir = "(string \<times> content) list"

record disk =
  folders_exist :: bool
  idDir :: dir
  pendingDir :: dir
  runningDir :: dir

fun get_dir :: "disk \<Rightarrow> folder \<Rightarrow> dir" where
  "get_dir d IdDir = idDir d"
| "get_dir d PendingDir = pendingDir d"
| "get_dir d RunningDir = runningDir d"

fun set_dir :: "disk \<Rightarrow> folder \<Rightarrow> dir \<Rightarrow> disk" where
  "set_dir d IdDir fs = d\<lparr>idDir := fs\<rparr>"
| "set_dir d PendingDir fs = d\<lparr>pendingDir := fs\<rparr>"
| "set_dir d RunningDir fs = d\<lparr>runningDir := fs\<rparr>"

fun dir_write :: "dir \<Rightarrow> string \<Rightarrow> content \<Rightarrow> dir" where
  "dir_write [] n c = [(n, c)]"
| "dir_write ((n', c') # fs) n c = (if n' = n then (n, c) # fs else (n', c') # dir_write fs n c)"

definition dir_remove :: "dir \<Rightarrow> string \<Rightarrow> dir" where
  "dir_remove fs n = filter (\<lambda>(n', c). n' \<noteq> n) fs"

definition file_name :: "ident \<Rightarrow> string" where
  \<comment> \<open>\<^verbatim>\<open>task.id + '.json'\<close>\<close>
  "file_name i = i @ ''.json''"

definition is_json :: "string \<Rightarrow> bool" where
  \<comment> \<open>\<^verbatim>\<open>file.match(/\.json$/)\<close>\<close>
  "is_json n = (5 \<le> length n \<and> drop (length n - 5) n = ''.json'')"

text \<open>
  What the calls of \<^verbatim>\<open>fs\<close> do to the disk. \<open>ok\<close> is the part the program does not
  control (an I/O error, a full disk); a file that is not there cannot be read or
  unlinked (\<^verbatim>\<open>ENOENT\<close>), and nothing can be written or listed before the folders exist.
\<close>

definition fs_openSync :: "disk \<Rightarrow> js_error + nat" where
  \<comment> \<open>\<^verbatim>\<open>fs.openSync(this.filename, 'w')\<close> on the lock file of the base folder\<close>
  "fs_openSync d = (if folders_exist d then Inr 3 else Inl (FsError ''ENOENT''))"

definition fs_writeFile :: "disk \<Rightarrow> folder \<Rightarrow> string \<Rightarrow> content \<Rightarrow> bool \<Rightarrow> js_error option \<times> disk" where
  "fs_writeFile d f n c ok =
     (if ok \<and> folders_exist d then (None, set_dir d f (dir_write (get_dir d f) n c))
      else (Some (FsError ''EIO''), d))"

definition fs_unlink :: "disk \<Rightarrow> folder \<Rightarrow> string \<Rightarrow> bool \<Rightarrow> js_error option \<times> disk" where
  "fs_unlink d f n ok =
     (case map_of (get_dir d f) n of
        None \<Rightarrow> (Some (FsError ''ENOENT''), d)
      | Some c \<Rightarrow> (if ok then (None, set_dir d f (dir_remove (get_dir d f) n))
                   else (Some (FsError ''EIO''), d)))"

definition fs_readFile :: "disk \<Rightarrow> folder \<Rightarrow> string \<Rightarrow> bool \<Rightarrow> js_error + content" where
  "fs_readFile d f n ok =
     (case map_of (get_dir d f) n of
        None \<Rightarrow> Inl (FsError ''ENOENT'')
      | Some c \<Rightarrow> (if ok then Inr c else Inl (FsError ''EIO'')))"

definition fs_readdir :: "disk \<Rightarrow> folder \<Rightarrow> bool \<Rightarrow> js_error + string list" where
  "fs_readdir d f ok =
     (if ok \<and> folders_exist d then Inr (map fst (get_dir d f)) else Inl (FsError ''EIO''))"

section \<open>The task queue (\<^verbatim>\<open>filequeue.js\<close>)\<close>

subsection \<open>Callbacks and registered events\<close>

text \<open>
  Every callback the queue passes on is one of finitely many closures; each is named
  after the step of the source it continues, with the variables it closes over. A task
  object made by \<^verbatim>\<open>JSON.parse\<close> in \<^verbatim>\<open>checkNextTask\<close> is shared between \<^verbatim>\<open>this.runningTasks\<close>
  and the callbacks and is mutated by \<^verbatim>\<open>runTask\<close>, so these objects live in a heap and
  are passed by reference (their index in the heap).

  The steps of an \<^verbatim>\<open>async.waterfall\<close> are chained as the library documents it: a step that
  calls \<^verbatim>\<open>next\<close> without error is followed by the next step, a step that passes an error
  by the final callback. Here the next step runs in the turn in which \<^verbatim>\<open>next\<close> is called;
  the versions of the library that start each step through \<^verbatim>\<open>setImmediate\<close> only add turns
  in which nothing else needs to happen, so an execution of the model is an execution of
  the program in either case.

  Left out: the calls of the logger, the callback a producer may pass to \<^verbatim>\<open>push\<close>
  (\<^verbatim>\<open>server.js\<close> passes none), and \<^verbatim>\<open>get\<close>, which takes the lock and only reads.
\<close>

type_synonym ref = nat

datatype wr_k =
    PushSavedId task
  | PushSavedPending task
  | CheckSavedId ident ref
  | CheckSavedRunning ident ref
  | CheckRemovedPending ident ref
  | RunSavedId ref
  | RunRemovedRunning ref

datatype ready_k =
    StartReady
  | PushReady task
  | CheckReady ident

text \<open>
  The function \<^verbatim>\<open>TaskQueue.prototype.lock\<close> hands to the mutex: it sets \<^verbatim>\<open>this.locked\<close> and
  calls \<^verbatim>\<open>whenReady\<close> with the callback it was given.
\<close>

datatype lock_cb = LockCb ident ready_k

text \<open>What is registered with the event loop and has not run yet.\<close>

datatype event =
    EvFlock ident "lock_cb option"
  | EvTimeout lock_cb
  | EvDeferCheck
  | EvDeferRun ref
  | EvMkdirs ready_k
  | EvReaddirRunning ready_k
  | EvWriteFile folder string content wr_k
  | EvUnlink folder string wr_k
  | EvReaddirPending ident
  | EvReadFile ident string
  | EvWorker ref jsval

record tq_state =
  runningTasks :: "ref list"
  maxItems :: int
  initialized :: bool
  init_error :: "js_error option"
  locked :: "ident option"
  mutex :: "lock_cb fmutex"
  objs :: "task list"
  uuids :: nat
  store :: disk
  events :: "event list"

type_synonym outcome = "js_error option \<times> tq_state"

definition register :: "tq_state \<Rightarrow> event list \<Rightarrow> tq_state" where
  "register s evs = s\<lparr>events := events s @ evs\<rparr>"

definition deref :: "tq_state \<Rightarrow> ref \<Rightarrow> task option" where
  "deref s r = (if r < length (objs s) then Some (objs s ! r) else None)"

text \<open>
  \<^verbatim>\<open>uuid.v1()\<close> returns a string it has not returned before: the \<open>n\<close>-th call returns
  \<open>uuid_v1 n\<close>.
\<close>

definition uuid_v1 :: "nat \<Rightarrow> string" where
  "uuid_v1 n = CHR ''u'' # replicate n CHR ''+''"

definition getNbRunningTasks :: "tq_state \<Rightarrow> nat" where
  "getNbRunningTasks s = length (runningTasks s)"

subsection \<open>Lock, save and remove\<close>

text \<open>\<^verbatim>\<open>TaskQueue.prototype.lock\<close> and \<^verbatim>\<open>unlock\<close>, on the file mutex.\<close>

definition tq_lock :: "tq_state \<Rightarrow> ident \<Rightarrow> ready_k \<Rightarrow> outcome" where
  "tq_lock s i k =
     (case fm_lock (mutex s) i (Some (LockCb i k)) (fs_openSync (store s)) of
        (e, m, reqs) \<Rightarrow>
          (e, register (s\<lparr>mutex := m\<rparr>) (map (\<lambda>r. case r of Flock j cb \<Rightarrow> EvFlock j cb) reqs)))"

definition tq_unlock :: "tq_state \<Rightarrow> ident \<Rightarrow> outcome" where
  "tq_unlock s i =
     (case fm_unlock (mutex s) i of
        (e, m, cbs) \<Rightarrow> (e, register (s\<lparr>mutex := m\<rparr>) (map EvTimeout cbs)))"

text \<open>
  \<^verbatim>\<open>saveTaskToFolder\<close> and \<^verbatim>\<open>removeTaskFromFolder\<close> up to the call of \<^verbatim>\<open>fs\<close>: \<open>None\<close> when
  the callback is called at once (\<^verbatim>\<open>if (!task || !task.id) return callback();\<close>), else the
  call of \<^verbatim>\<open>fs.writeFile\<close> or \<^verbatim>\<open>fs.unlink\<close> that is registered. The text to write is
  computed at the call.
\<close>

definition saveTaskToFolder :: "task option \<Rightarrow> folder \<Rightarrow> wr_k \<Rightarrow> event option" where
  "saveTaskToFolder t f k =
     (case t of
        None \<Rightarrow> None
      | Some t' \<Rightarrow> (if task_id t' = [] then None
                    else Some (EvWriteFile f (file_name (task_id t')) (Json t') k)))"

definition removeTaskFromFolder :: "task option \<Rightarrow> folder \<Rightarrow> wr_k \<Rightarrow> event option" where
  "removeTaskFromFolder t f k =
     (case t of
        None \<Rightarrow> None
      | Some t' \<Rightarrow> (if task_id t' = [] then None
                    else Some (EvUnlink f (file_name (task_id t')) k)))"

definition save_failed :: js_error where
  \<comment> \<open>the source uses this message in \<^verbatim>\<open>removeTaskFromFolder\<close> as well\<close>
  "save_failed = InternalError ''Could not save task to file''"

text \<open>
  The callbacks of \<^verbatim>\<open>fs.writeFile\<close> and \<^verbatim>\<open>fs.unlink\<close> inside the two functions: the effect
  on the disk and the error passed on to the callback of the caller.
\<close>

definition save_done :: "disk \<Rightarrow> folder \<Rightarrow> string \<Rightarrow> content \<Rightarrow> bool \<Rightarrow> js_error option \<times> disk" where
  "save_done d f n c ok =
     (case fs_writeFile d f n c ok of
        (Some e, d') \<Rightarrow> (Some save_failed, d')
      | (None, d') \<Rightarrow> (None, d'))"

definition remove_done :: "disk \<Rightarrow> folder \<Rightarrow> string \<Rightarrow> bool \<Rightarrow> js_error option \<times> disk" where
  "remove_done d f n ok =
     (case fs_unlink d f n ok of
        (Some e, d') \<Rightarrow> (Some save_failed, d')
      | (None, d') \<Rightarrow> (None, d'))"

subsection \<open>\<^verbatim>\<open>runTask\<close>\<close>

text \<open>The assignments to the task in the callback given to the worker.\<close>

definition complete_task :: "task \<Rightarrow> js_error option \<Rightarrow> jsval \<Rightarrow> string \<Rightarrow> task" where
  "complete_task t err res now =
     (case err of
        Some e \<Rightarrow>
          t\<lparr>status := Failure, error := Some (toString e),
            errorCode := Some (if cls e = ParamErrorC then 400
                               else if cls e = ProxyErrorC then 503 else 500),
            dateFinished := Some now\<rparr>
      | None \<Rightarrow>
          (if truthy res then t\<lparr>status := Success, result := Some res, dateFinished := Some now\<rparr>
           else t\<lparr>status := Success, dateFinished := Some now\<rparr>))"

definition run_removed_running :: "tq_state \<Rightarrow> ref \<Rightarrow> js_error option \<Rightarrow> outcome" where
  "run_removed_running s r err = (None, register s [EvDeferCheck])"

definition run_saved_id :: "tq_state \<Rightarrow> ref \<Rightarrow> js_error option \<Rightarrow> outcome" where
  "run_saved_id s r err =
     (case removeTaskFromFolder (deref s r) RunningDir (RunRemovedRunning r) of
        None \<Rightarrow> run_removed_running s r None
      | Some ev \<Rightarrow> (None, register s [ev]))"

text \<open>
  The callback given to the worker: \<open>err\<close> is \<open>None\<close> when the worker passes a falsy
  first argument; \<open>now\<close> is \<^verbatim>\<open>(new Date()).toISOString()\<close>. The task is the one
  \<^verbatim>\<open>runTask\<close> was called with, so the reference is valid; the first branch is what an
  assignment to a field of \<^verbatim>\<open>undefined\<close> would do.
\<close>

definition worker_done :: "tq_state \<Rightarrow> ref \<Rightarrow> js_error option \<Rightarrow> jsval \<Rightarrow> string \<Rightarrow> outcome" where
  "worker_done s r err res now =
     (case deref s r of
        None \<Rightarrow> (Some (TypeError ''Cannot set property of undefined''), s)
      | Some t \<Rightarrow>
          (let t' = complete_task t err res now;
               s' = s\<lparr>objs := (objs s)[r := t'], runningTasks := removeAll r (runningTasks s)\<rparr>
           in case saveTaskToFolder (Some t') IdDir (RunSavedId r) of
                None \<Rightarrow> run_saved_id s' r None
              | Some ev \<Rightarrow> (None, register s' [ev])))"

definition runTask :: "tq_state \<Rightarrow> ref \<Rightarrow> outcome" where
  "runTask s r =
     (case deref s r of
        None \<Rightarrow> (None, s)
      | Some t \<Rightarrow> (None, register s [EvWorker r (params t)]))"

subsection \<open>\<^verbatim>\<open>checkNextTask\<close>\<close>

text \<open>
  The steps of the \<^verbatim>\<open>async.waterfall\<close>, last first. An error passed to \<^verbatim>\<open>next\<close> skips the
  remaining steps and reaches the final callback, \<open>check_failed\<close>; without an error the
  final callback is \<open>check_done\<close>. Both begin with \<^verbatim>\<open>self.unlock(runnerTask)\<close>; what
  \<^verbatim>\<open>unlock\<close> throws is not caught.
\<close>

definition all_run :: js_error where
  \<comment> \<open>the string \<^verbatim>\<open>'all run'\<close> passed as error when no file is pending\<close>
  "all_run = JsError NativeErrorC [] ''all run''"

definition check_failed :: "tq_state \<Rightarrow> ident \<Rightarrow> js_error \<Rightarrow> outcome" where
  "check_failed s runner err = tq_unlock s runner"

definition check_done :: "tq_state \<Rightarrow> ident \<Rightarrow> ref \<Rightarrow> outcome" where
  "check_done s runner r =
     (case tq_unlock s runner of
        (Some e, s') \<Rightarrow> (Some e, s')
      | (None, s') \<Rightarrow> (None, register s' [EvDeferRun r]))"

definition check_removed_pending :: "tq_state \<Rightarrow> ident \<Rightarrow> ref \<Rightarrow> js_error option \<Rightarrow> outcome" where
  "check_removed_pending s runner r err =
     (case err of Some e \<Rightarrow> check_failed s runner e | None \<Rightarrow> check_done s runner r)"

definition check_saved_running :: "tq_state \<Rightarrow> ident \<Rightarrow> ref \<Rightarrow> js_error option \<Rightarrow> outcome" where
  "check_saved_running s runner r err =
     (case err of
        Some e \<Rightarrow> check_failed s runner e
      | None \<Rightarrow>
          (case removeTaskFromFolder (deref s r) PendingDir (CheckRemovedPending runner r) of
             None \<Rightarrow> check_removed_pending s runner r None
           | Some ev \<Rightarrow> (None, register s [ev])))"

definition check_saved_id :: "tq_state \<Rightarrow> ident \<Rightarrow> ref \<Rightarrow> js_error option \<Rightarrow> outcome" where
  "check_saved_id s runner r err =
     (case err of
        Some e \<Rightarrow> check_failed s runner e
      | None \<Rightarrow>
          (case saveTaskToFolder (deref s r) RunningDir (CheckSavedRunning runner r) of
             None \<Rightarrow> check_saved_running s runner r None
           | Some ev \<Rightarrow> (None, register s [ev])))"

text \<open>
  The step that receives the parsed task: the object is new (\<open>r\<close> is its reference), it
  is pushed on \<^verbatim>\<open>runningTasks\<close>, its status is set and it is saved to the \<^verbatim>\<open>id\<close> folder.
\<close>

definition check_parsed :: "tq_state \<Rightarrow> ident \<Rightarrow> task \<Rightarrow> outcome" where
  "check_parsed s runner t =
     (let r = length (objs s);
          t' = t\<lparr>status := Running\<rparr>;
          s' = s\<lparr>objs := objs s @ [t'], runningTasks := runningTasks s @ [r]\<rparr>
      in case saveTaskToFolder (Some t') IdDir (CheckSavedId runner r) of
           None \<Rightarrow> check_saved_id s' runner r None
         | Some ev \<Rightarrow> (None, register s' [ev]))"

text \<open>The callback of \<^verbatim>\<open>fs.readFile\<close> and the \<^verbatim>\<open>JSON.parse\<close> step.\<close>

definition check_read :: "tq_state \<Rightarrow> ident \<Rightarrow> string \<Rightarrow> bool \<Rightarrow> outcome" where
  "check_read s runner file ok =
     (case fs_readFile (store s) PendingDir file ok of
        Inl e \<Rightarrow> check_failed s runner e
      | Inr data \<Rightarrow>
          (case JSON_parse data of
             Inl e \<Rightarrow> check_failed s runner e
           | Inr t \<Rightarrow> check_parsed s runner t))"

text \<open>The callback of \<^verbatim>\<open>fs.readdir\<close> and the choice of the first file that matches.\<close>

definition check_listed :: "tq_state \<Rightarrow> ident \<Rightarrow> bool \<Rightarrow> outcome" where
  "check_listed s runner ok =
     (case fs_readdir (store s) PendingDir ok of
        Inl e \<Rightarrow> check_failed s runner e
      | Inr files \<Rightarrow>
          (case find is_json files of
             None \<Rightarrow> check_failed s runner all_run
           | Some file \<Rightarrow> (None, register s [EvReadFile runner file])))"

definition check_ready :: "tq_state \<Rightarrow> ident \<Rightarrow> js_error option \<Rightarrow> outcome" where
  "check_ready s runner err =
     (case err of
        Some e \<Rightarrow> check_failed s runner e
      | None \<Rightarrow> (None, register s [EvReaddirPending runner]))"

text \<open>
  \<^verbatim>\<open>checkNextTask\<close> itself: the test of the limit, then \<^verbatim>\<open>self.lock(runnerTask, next)\<close>.
  \<^verbatim>\<open>this.runningTasks\<close> is an array, hence truthy.
\<close>

definition checkNextTask :: "tq_state \<Rightarrow> outcome" where
  "checkNextTask s =
     (let runner = ''runner-'' @ uuid_v1 (uuids s);
          s' = s\<lparr>uuids := Suc (uuids s)\<rparr>
      in if 0 < maxItems s' \<and> maxItems s' \<le> int (length (runningTasks s')) then (None, s')
         else tq_lock s' runner (CheckReady runner))"

subsection \<open>\<^verbatim>\<open>push\<close>\<close>

definition push_final :: "tq_state \<Rightarrow> task \<Rightarrow> js_error option \<Rightarrow> outcome" where
  "push_final s t err =
     (case tq_unlock s (task_id t) of
        (Some e, s') \<Rightarrow> (Some e, s')
      | (None, s') \<Rightarrow>
          (case err of
             Some e \<Rightarrow> (None, s')
           | None \<Rightarrow> (None, register s' [EvDeferCheck])))"

definition push_saved_pending :: "tq_state \<Rightarrow> task \<Rightarrow> js_error option \<Rightarrow> outcome" where
  "push_saved_pending s t err = push_final s t err"

definition push_saved_id :: "tq_state \<Rightarrow> task \<Rightarrow> js_error option \<Rightarrow> outcome" where
  "push_saved_id s t err =
     (case err of
        Some e \<Rightarrow> push_final s t err
      | None \<Rightarrow>
          (case saveTaskToFolder (Some t) PendingDir (PushSavedPending t) of
             None \<Rightarrow> push_saved_pending s t None
           | Some ev \<Rightarrow> (None, register s [ev])))"

definition push_ready :: "tq_state \<Rightarrow> task \<Rightarrow> js_error option \<Rightarrow> outcome" where
  "push_ready s t err =
     (case err of
        Some e \<Rightarrow> push_final s t err
      | None \<Rightarrow>
          (case saveTaskToFolder (Some t) IdDir (PushSavedId t) of
             None \<Rightarrow> push_saved_id s t None
           | Some ev \<Rightarrow> (None, register s [ev])))"

definition invalid_task :: js_error where
  "invalid_task = ParamError ''Invalid empty build task received''"

text \<open>
  \<^verbatim>\<open>push(params)\<close>; \<open>now\<close> is \<^verbatim>\<open>(new Date()).toISOString()\<close>. The error returned is the
  one thrown to the caller.
\<close>

definition push :: "tq_state \<Rightarrow> jsval \<Rightarrow> string \<Rightarrow> outcome" where
  "push s p now =
     (if \<not> truthy p then (Some invalid_task, s)
      else
        (let t = \<lparr>task_id = uuid_v1 (uuids s), params = p, status = Pending, dateCreated = now,
                  error = None, errorCode = None, result = None, dateFinished = None\<rparr>;
             s' = s\<lparr>uuids := Suc (uuids s)\<rparr>
         in tq_lock s' (task_id t) (PushReady t)))"

subsection \<open>\<^verbatim>\<open>start\<close> and \<^verbatim>\<open>whenReady\<close>\<close>

definition start_ready :: "tq_state \<Rightarrow> js_error option \<Rightarrow> outcome" where
  "start_ready s err = (case err of Some e \<Rightarrow> (None, s) | None \<Rightarrow> checkNextTask s)"

definition call_ready :: "ready_k \<Rightarrow> tq_state \<Rightarrow> js_error option \<Rightarrow> outcome" where
  "call_ready k s err =
     (case k of
        StartReady \<Rightarrow> start_ready s err
      | PushReady t \<Rightarrow> push_ready s t err
      | CheckReady runner \<Rightarrow> check_ready s runner err)"

definition whenReady :: "tq_state \<Rightarrow> ready_k \<Rightarrow> outcome" where
  "whenReady s k =
     (if initialized s then call_ready k s None
      else (case init_error s of
              Some e \<Rightarrow> call_ready k s (Some e)
            | None \<Rightarrow> (None, register s [EvMkdirs k])))"

text \<open>
  The final callback of \<^verbatim>\<open>async.each\<close> over the three calls of \<^verbatim>\<open>mkdirp\<close>, and the callback
  of \<^verbatim>\<open>fs.readdir\<close> on the \<^verbatim>\<open>running\<close> folder (which only logs).
\<close>

definition mkdirs_done :: "tq_state \<Rightarrow> ready_k \<Rightarrow> bool \<Rightarrow> outcome" where
  "mkdirs_done s k ok =
     (if ok
      then (None, register (s\<lparr>initialized := True, init_error := None,
                               store := (store s)\<lparr>folders_exist := True\<rparr>\<rparr>) [EvReaddirRunning k])
      else (let e = InternalError ''Path could not be created''
            in call_ready k (s\<lparr>initialized := True, init_error := Some e\<rparr>) (Some e)))"

definition running_listed :: "tq_state \<Rightarrow> ready_k \<Rightarrow> bool \<Rightarrow> outcome" where
  "running_listed s k ok =
     (case fs_readdir (store s) RunningDir ok of
        Inl e \<Rightarrow> call_ready k s (Some e)
      | Inr files \<Rightarrow> call_ready k s None)"

text \<open>The constructor: the fields, then \<^verbatim>\<open>this.start()\<close>.\<close>

definition TaskQueue_new :: "int option \<Rightarrow> disk \<Rightarrow> outcome" where
  "TaskQueue_new mx d =
     whenReady \<lparr>runningTasks = [], maxItems = (case mx of None \<Rightarrow> - 1 | Some n \<Rightarrow> n),
                initialized = False, init_error = None, locked = None,
                mutex = FileMutex_new ''lock'', objs = [], uuids = 0, store = d, events = []\<rparr>
               StartReady"

subsection \<open>The event loop\<close>

text \<open>The function given to the mutex by \<^verbatim>\<open>TaskQueue.prototype.lock\<close>.\<close>

definition lock_granted :: "tq_state \<Rightarrow> lock_cb \<Rightarrow> outcome" where
  "lock_granted s cb = (case cb of LockCb i k \<Rightarrow> whenReady (s\<lparr>locked := Some i\<rparr>) k)"

definition flock_done :: "tq_state \<Rightarrow> ident \<Rightarrow> lock_cb option \<Rightarrow> bool \<Rightarrow> outcome" where
  "flock_done s i cb ok =
     (case fm_flock_done (mutex s) i cb ok of
        (Some e, m, cbs) \<Rightarrow> (Some e, s\<lparr>mutex := m\<rparr>)
      | (None, m, []) \<Rightarrow> (None, s\<lparr>mutex := m\<rparr>)
      | (None, m, c # cs) \<Rightarrow> lock_granted (s\<lparr>mutex := m\<rparr>) c)"

definition call_wr :: "wr_k \<Rightarrow> tq_state \<Rightarrow> js_error option \<Rightarrow> outcome" where
  "call_wr k s err =
     (case k of
        PushSavedId t \<Rightarrow> push_saved_id s t err
      | PushSavedPending t \<Rightarrow> push_saved_pending s t err
      | CheckSavedId runner r \<Rightarrow> check_saved_id s runner r err
      | CheckSavedRunning runner r \<Rightarrow> check_saved_running s runner r err
      | CheckRemovedPending runner r \<Rightarrow> check_removed_pending s runner r err
      | RunSavedId r \<Rightarrow> run_saved_id s r err
      | RunRemovedRunning r \<Rightarrow> run_removed_running s r err)"

text \<open>
  What the environment decides when a registered event runs: whether the I/O call
  succeeded, or how the worker ended (error, result, time).
\<close>

datatype reply = Ok | Failed | Ended "js_error option" jsval string

definition succeeded :: "reply \<Rightarrow> bool" where
  "succeeded rp = (case rp of Ok \<Rightarrow> True | _ \<Rightarrow> False)"

text \<open>Running one registered event to completion.\<close>

definition run_event :: "tq_state \<Rightarrow> event \<Rightarrow> reply \<Rightarrow> outcome" where
  "run_event s ev rp =
     (case ev of
        EvFlock i cb \<Rightarrow> flock_done s i cb (succeeded rp)
      | EvTimeout cb \<Rightarrow> lock_granted s cb
      | EvDeferCheck \<Rightarrow> checkNextTask s
      | EvDeferRun r \<Rightarrow> runTask s r
      | EvMkdirs k \<Rightarrow> mkdirs_done s k (succeeded rp)
      | EvReaddirRunning k \<Rightarrow> running_listed s k (succeeded rp)
      | EvWriteFile f n c k \<Rightarrow>
          (case save_done (store s) f n c (succeeded rp) of
             (err, d) \<Rightarrow> call_wr k (s\<lparr>store := d\<rparr>) err)
      | EvUnlink f n k \<Rightarrow>
          (case remove_done (store s) f n (succeeded rp) of
             (err, d) \<Rightarrow> call_wr k (s\<lparr>store := d\<rparr>) err)
      | EvReaddirPending runner \<Rightarrow> check_listed s runner (succeeded rp)
      | EvReadFile runner file \<Rightarrow> check_read s runner file (succeeded rp)
      | EvWorker r p \<Rightarrow>
          (case rp of
             Ended err res now \<Rightarrow> worker_done s r err res now
           | _ \<Rightarrow> (None, register s [EvWorker r p])))"

text \<open>
  One turn of the event loop: a call of \<^verbatim>\<open>push\<close> by a producer, or the \<open>n\<close>-th registered
  event runs (nothing happens if there is none). An execution is a list of turns; it
  ends at the first error that nothing catches.
\<close>

datatype turn = Push jsval string | Fire nat reply

definition step :: "tq_state \<Rightarrow> turn \<Rightarrow> outcome" where
  "step s a =
     (case a of
        Push p now \<Rightarrow> push s p now
      | Fire n rp \<Rightarrow>
          (if n < length (events s)
           then run_event (s\<lparr>events := take n (events s) @ drop (Suc n) (events s)\<rparr>) (events s ! n) rp
           else (None, s)))"

fun exec :: "tq_state \<Rightarrow> turn list \<Rightarrow> outcome" where
  "exec s [] = (None, s)"
| "exec s (a # as) = (case step s a of (Some e, s') \<Rightarrow> (Some e, s') | (None, s') \<Rightarrow> exec s' as)"

subsection \<open>Observations and executions\<close>

text \<open>
  The status that \<^verbatim>\<open>get\<close> would read for a job: the one in its record in the \<^verbatim>\<open>id\<close> folder.
\<close>

definition index_status :: "tq_state \<Rightarrow> ident \<Rightarrow> status option" where
  "index_status s i =
     (case map_of (idDir (store s)) (file_name i) of
        Some (Json t) \<Rightarrow> Some (status t)
      | _ \<Rightarrow> None)"

text \<open>The states an execution goes through, the first one included.\<close>

fun visited :: "tq_state \<Rightarrow> turn list \<Rightarrow> tq_state list" where
  "visited s [] = [s]"
| "visited s (a # as) =
     s # (case step s a of (Some e, s') \<Rightarrow> [s'] | (None, s') \<Rightarrow> visited s' as)"

definition status_history :: "tq_state \<Rightarrow> turn list \<Rightarrow> ident \<Rightarrow> status option list" where
  \<comment> \<open>the successive values of the status of a job, repetitions dropped\<close>
  "status_history s turns i = remdups_adj (map (\<lambda>s'. index_status s' i) (visited s turns))"

text \<open>
  The executions below start as \<^verbatim>\<open>server.js\<close> does: an empty data folder and
  \<^verbatim>\<open>new TaskQueue(gitaction, {maxItems: 1})\<close>.
\<close>

definition fresh_disk :: disk where
  "fresh_disk = \<lparr>folders_exist = False, idDir = [], pendingDir = [], runningDir = []\<rparr>"

definition started :: tq_state where
  "started = snd (TaskQueue_new (Some 1) fresh_disk)"

definition job_a :: jsval where
  "job_a = JObj [(''name'', JStr ''a'')]"

definition job_b :: jsval where
  "job_b = JObj [(''name'', JStr ''b'')]"

text \<open>
  \<open>startup\<close>: the folders are created, the \<^verbatim>\<open>running\<close> folder is listed, \<^verbatim>\<open>start\<close> calls
  \<^verbatim>\<open>checkNextTask\<close>, which takes the lock, finds the \<^verbatim>\<open>pending\<close> folder empty and
  releases the lock.
\<close>

definition startup :: "turn list" where
  "startup = [Fire 0 Ok, Fire 0 Ok, Fire 0 Ok, Fire 0 Ok]"

text \<open>
  \<open>two_pushes\<close>: two calls of \<^verbatim>\<open>push\<close>, the second while the first holds the lock. No
  two requests for the lock are ever in flight together. Each \<^verbatim>\<open>push\<close> ends by deferring
  \<^verbatim>\<open>checkNextTask\<close>; the second of these calls runs while the first one waits for
  \<^verbatim>\<open>fs.readdir\<close>.
\<close>

definition two_pushes :: "turn list" where
  "two_pushes = startup @
     [Push job_a ''t1'', Fire 0 Ok, Push job_b ''t2'', Fire 0 Ok, Fire 0 Ok,
      Fire 0 Ok, Fire 0 Ok, Fire 0 Ok, Fire 0 Ok, Fire 0 Ok, Fire 0 Ok,
      Fire 0 Ok, Fire 0 Ok, Fire 0 Ok, Fire 0 Ok, Fire 0 Ok, Fire 0 Ok,
      Fire 0 Ok, Fire 0 Ok, Fire 1 Ok, Fire 1 Ok, Fire 1 Ok, Fire 1 Ok, Fire 1 Ok]"

text \<open>
  \<open>one_job\<close>: one call of \<^verbatim>\<open>push\<close>, the job is dequeued and run, and the worker calls
  back without error at time \<open>t2\<close>.
\<close>

definition one_job :: "turn list" where
  "one_job = startup @
     [Push job_a ''t1'', Fire 0 Ok, Fire 0 Ok, Fire 0 Ok, Fire 0 Ok, Fire 0 Ok, Fire 0 Ok,
      Fire 0 Ok, Fire 0 Ok, Fire 0 Ok, Fire 0 Ok, Fire 0 Ok, Fire 0 (Ended None JNull ''t2'')]"

text \<open>
  \<open>racing_checks\<close>: \<^verbatim>\<open>push\<close> is called while the queue starts. The call of
  \<^verbatim>\<open>checkNextTask\<close> made by \<^verbatim>\<open>start\<close> and the one deferred by \<^verbatim>\<open>push\<close> both ask for the
  lock while it is free, and \<^verbatim>\<open>fs.flock\<close> succeeds for both (the descriptor is the same).
  Both read the pending file. The second runs the job to its end; the write of the
  first to the \<^verbatim>\<open>id\<close> folder is still in flight and completes with \<open>late_write\<close>.
\<close>

definition racing_checks :: "turn list" where
  "racing_checks =
     [Fire 0 Ok, Push job_a ''t1'', Fire 1 Ok, Fire 1 Ok, Fire 1 Ok, Fire 0 Ok,
      Fire 0 Ok, Fire 0 Ok, Fire 0 Ok, Fire 0 Ok, Fire 0 Ok, Fire 0 Ok, Fire 0 Ok,
      Fire 1 Ok, Fire 1 Ok, Fire 1 Ok, Fire 1 Ok, Fire 1 (Ended None JNull ''t2''), Fire 1 Ok]"

definition late_write :: "turn list" where
  "late_write = [Fire 0 Ok]"

text \<open>
  \<open>burst\<close>: two calls of \<^verbatim>\<open>push\<close> in the same turn, as the periodic check of
  \<^verbatim>\<open>server.js\<close> makes them (one per monitored repository), then the two callbacks of
  \<^verbatim>\<open>fs.flock\<close>.
\<close>

definition burst :: "turn list" where
  "burst = startup @ [Push job_a ''t1'', Push job_b ''t1'', Fire 0 Ok, Fire 0 Ok]"

text \<open>
  A short view of a state, for following an execution turn by turn: the number of
  running tasks, the holder of the lock, the ids that wait for it, and what is
  registered with the event loop (\<open>Fire n\<close> runs the \<open>n\<close>-th of these, from 0).
\<close>

definition folder_name :: "folder \<Rightarrow> string" where
  "folder_name f = (case f of IdDir \<Rightarrow> ''id'' | PendingDir \<Rightarrow> ''pending'' | RunningDir \<Rightarrow> ''running'')"

definition event_name :: "event \<Rightarrow> string" where
  "event_name ev =
     (case ev of
        EvFlock i cb \<Rightarrow> ''flock for '' @ i
      | EvTimeout cb \<Rightarrow> (case cb of LockCb i k \<Rightarrow> ''lock callback of '' @ i)
      | EvDeferCheck \<Rightarrow> ''checkNextTask''
      | EvDeferRun r \<Rightarrow> ''runTask''
      | EvMkdirs k \<Rightarrow> ''mkdirp''
      | EvReaddirRunning k \<Rightarrow> ''readdir running''
      | EvWriteFile f n c k \<Rightarrow> ''write '' @ folder_name f @ ''/'' @ n
      | EvUnlink f n k \<Rightarrow> ''unlink '' @ folder_name f @ ''/'' @ n
      | EvReaddirPending i \<Rightarrow> ''readdir pending for '' @ i
      | EvReadFile i n \<Rightarrow> ''read pending/'' @ n @ '' for '' @ i
      | EvWorker r p \<Rightarrow> ''worker'')"

definition snapshot :: "tq_state \<Rightarrow> nat \<times> ident option \<times> ident list \<times> string list" where
  "snapshot s =
     (length (runningTasks s), lockedBy (mutex s), map wid (queue (mutex s)),
      map event_name (events s))"

text \<open>A running task, a queue that holds it, and a data folder with empty folders.\<close>

definition a_task :: task where
  "a_task = \<lparr>task_id = ''j1'', params = job_a, status = Running, dateCreated = ''t1'',
             error = None, errorCode = None, result = None, dateFinished = None\<rparr>"

definition a_state :: tq_state where
  "a_state = started\<lparr>objs := [a_task], runningTasks := [0], events := []\<rparr>"

definition ready_disk :: disk where
  "ready_disk = \<lparr>folders_exist = True, idDir = [], pendingDir = [], runningDir = []\<rparr>"

section \<open>Facts about the store\<close>

lemma map_of_dir_write: "map_of (dir_write fs n c) n = Some c"
  by (induction fs) auto

lemma map_of_dir_remove: "map_of (dir_remove fs n) n = None"
  by (induction fs) (auto simp: dir_remove_def)

lemma get_set_dir: "get_dir (set_dir d f fs) f = fs"
  by (cases f) simp_all

section \<open>The in-memory mutex is exclusive and first in, first out\<close>

text \<open>
  For every sequence of calls in which the ids that ask for the lock are non-empty
  strings: at every moment at most one id owns the lock, it is the one in \<^verbatim>\<open>lockedBy\<close>,
  and the callbacks scheduled so far followed by the waiters are the requests in the
  order of their arrival. (The file mutex fails this, see C4.)
\<close>

lemma client_inv_step:
  assumes "client_inv c" and "named a"
  shows "client_inv (mutex_call c a) \<and>
         grants (mutex_call c a) @ map wid (queue (mtx (mutex_call c a)))
           = grants c @ map wid (queue (mtx c)) @ lock_ids [a]"
proof (cases a)
  case (Lock i)
  with assms show ?thesis
    by (cases "lockedBy (mtx c)")
       (auto simp: client_inv_def holder_list_def mutex_lock_def truthy_id_def timeouts_def)
next
  case (Unlock i)
  show ?thesis
  proof (cases "lockedBy (mtx c) = Some i")
    case False
    with Unlock assms show ?thesis
      by (simp add: mutex_unlock_def)
  next
    case True
    with Unlock assms show ?thesis
      by (cases "queue (mtx c)")
         (auto simp: client_inv_def holder_list_def mutex_unlock_def timeouts_def)
  qed
qed

lemma lock_ids_append: "lock_ids (cs @ ds) = lock_ids cs @ lock_ids ds"
  by (induction cs rule: lock_ids.induct) simp_all

lemma client_inv_run:
  assumes "client_inv c" and "\<forall>a \<in> set cs. named a"
  shows "client_inv (foldl mutex_call c cs) \<and>
         grants (foldl mutex_call c cs) @ map wid (queue (mtx (foldl mutex_call c cs)))
           = grants c @ map wid (queue (mtx c)) @ lock_ids cs"
  using assms
proof (induction cs arbitrary: c)
  case Nil
  then show ?case by simp
next
  case (Cons a cs)
  from Cons.prems have s: "client_inv (mutex_call c a)"
    "grants (mutex_call c a) @ map wid (queue (mtx (mutex_call c a)))
       = grants c @ map wid (queue (mtx c)) @ lock_ids [a]"
    using client_inv_step [of c a] by simp_all
  from Cons.IH [OF s(1)] Cons.prems(2) s(2) show ?case
    using lock_ids_append [of "[a]" cs] by simp
qed

lemma mutex_exclusive_fifo:
  assumes "\<forall>a \<in> set cs. named a"
  shows "length (owners (mutex_calls cs)) \<le> 1 \<and>
         owners (mutex_calls cs) = holder_list (mtx (mutex_calls cs)) \<and>
         grants (mutex_calls cs) @ map wid (queue (mtx (mutex_calls cs))) = lock_ids cs"
proof -
  have "client_inv \<lparr>mtx = Mutex_new, owners = [], grants = []\<rparr>"
    by (simp add: client_inv_def holder_list_def Mutex_new_def)
  from client_inv_run [OF this assms] show ?thesis
    by (auto simp: mutex_calls_def client_inv_def holder_list_def Mutex_new_def split: option.splits)
qed

section \<open>Facts about single steps of the queue\<close>

text \<open>
  The test of the limit in \<^verbatim>\<open>checkNextTask\<close>: at the limit the call takes a uuid for the
  runner and does nothing else.
\<close>

lemma checkNextTask_at_limit:
  assumes "0 < maxItems s" and "maxItems s \<le> int (length (runningTasks s))"
  shows "checkNextTask s = (None, s\<lparr>uuids := Suc (uuids s)\<rparr>)"
  using assms by (simp add: checkNextTask_def Let_def)

text \<open>
  \<^verbatim>\<open>runTask\<close> and the callbacks it registers never touch the mutex: they neither take
  nor release the lock.
\<close>

lemma completion_ignores_mutex:
  "mutex (snd (runTask s r)) = mutex s"
  "mutex (snd (worker_done s r err res now)) = mutex s"
  "mutex (snd (run_saved_id s r e)) = mutex s"
  "mutex (snd (run_removed_running s r e)) = mutex s"
  by (simp_all add: runTask_def worker_done_def run_saved_id_def run_removed_running_def
        register_def Let_def split: option.split)

section \<open>Properties of the two mutexes\<close>

text \<open>
  C5. For every state of the lock and every identity that is not the current holder,
  \<^verbatim>\<open>unlock(id)\<close> throws an \<^verbatim>\<open>InternalError\<close> and leaves the lock as it was: the holder and
  the queue of waiters are the same, and no callback is scheduled. This holds for the
  in-memory mutex and for the file mutex.
\<close>

theorem unlock_by_non_holder:
  assumes "lockedBy m \<noteq> Some i" and "lockedBy fm \<noteq> Some j"
  shows "mutex_unlock m i = (Some (InternalError not_owner_msg), m, []) \<and>
         fm_unlock fm j = (Some (InternalError not_owner_msg), fm, []) \<and>
         cls (InternalError not_owner_msg) = InternalErrorC"
  using assms by (simp add: mutex_unlock_def fm_unlock_def InternalError_def)

theorem unlock_by_non_holder_witness:
  "mutex_unlock \<lparr>lockedBy = Some ''a'', queue = [\<lparr>wid = ''c'', wcallback = Some (1::nat)\<rparr>]\<rparr> ''b''
     = (Some (InternalError not_owner_msg),
        \<lparr>lockedBy = Some ''a'', queue = [\<lparr>wid = ''c'', wcallback = Some 1\<rparr>]\<rparr>, []) \<and>
   fm_unlock \<lparr>lockedBy = None, queue = [], filename = ''lock'', fd = None\<rparr> ''b''
     = (Some (InternalError not_owner_msg),
        \<lparr>lockedBy = None, queue = ([] :: nat waiter list), filename = ''lock'', fd = None\<rparr>, [])"
  using unlock_by_non_holder
    [of "\<lparr>lockedBy = Some ''a'', queue = [\<lparr>wid = ''c'', wcallback = Some (1::nat)\<rparr>]\<rparr>" "''b''"
        "\<lparr>lockedBy = None, queue = ([] :: nat waiter list), filename = ''lock'', fd = None\<rparr>" "''b''"]
  by simp

text \<open>
  C9, as the claim states it: a holder that asks for the lock again gets it at once.
  It does not: the holder \<open>a\<close> asks again, no callback is scheduled and the request
  sits in the queue, behind a lock that only \<open>a\<close> can release.
\<close>

theorem reentrant_lock_counterexample:
  "lockedBy (fst (mutex_lock Mutex_new ''a'' (Some ''first''))) = Some ''a'' \<and>
   snd (mutex_lock Mutex_new ''a'' (Some ''first'')) = [''first''] \<and>
   snd (mutex_lock (fst (mutex_lock Mutex_new ''a'' (Some ''first''))) ''a'' (Some ''second'')) = [] \<and>
   queue (fst (mutex_lock (fst (mutex_lock Mutex_new ''a'' (Some ''first''))) ''a'' (Some ''second'')))
     = [\<lparr>wid = ''a'', wcallback = Some ''second''\<rparr>]"
  by (simp add: mutex_lock_def Mutex_new_def truthy_id_def timeouts_def)

text \<open>
  C9, amended. For every owner (with a non-empty id) that holds the lock, a second
  \<^verbatim>\<open>lock\<close> by the same id is not an error and is not granted either: the request is
  appended to the queue of waiters like any other, the holder stays, and nothing is
  scheduled or asked of \<^verbatim>\<open>fs.flock\<close>. The request is granted by a release: if nobody else
  waits, the \<^verbatim>\<open>unlock\<close> of the holder hands the lock back to the same id and schedules
  the callback of the second request. This holds for both mutexes.
\<close>

theorem reentrant_lock_is_queued:
  assumes "lockedBy m = Some i" and "lockedBy fm = Some i" and "i \<noteq> []"
  shows "mutex_lock m i cb = (m\<lparr>queue := queue m @ [\<lparr>wid = i, wcallback = cb\<rparr>]\<rparr>, []) \<and>
         fm_lock fm i cb opened = (None, fm\<lparr>queue := queue fm @ [\<lparr>wid = i, wcallback = cb\<rparr>]\<rparr>, []) \<and>
         (queue m = [] \<longrightarrow>
            mutex_unlock (fst (mutex_lock m i cb)) i = (None, m, timeouts cb)) \<and>
         (queue fm = [] \<longrightarrow>
            fm_unlock (fst (snd (fm_lock fm i cb opened))) i = (None, fm, timeouts cb))"
  using assms
  by (simp add: mutex_lock_def fm_lock_def truthy_id_def mutex_unlock_def fm_unlock_def)

theorem reentrant_lock_is_queued_witness:
  "mutex_lock \<lparr>lockedBy = Some ''a'', queue = []\<rparr> ''a'' (Some ''second'')
     = (\<lparr>lockedBy = Some ''a'', queue = [\<lparr>wid = ''a'', wcallback = Some ''second''\<rparr>]\<rparr>, []) \<and>
   fm_lock \<lparr>lockedBy = Some ''a'', queue = [], filename = ''lock'', fd = Some 3\<rparr> ''a'' (Some ''second'') (Inr 3)
     = (None, \<lparr>lockedBy = Some ''a'', queue = [\<lparr>wid = ''a'', wcallback = Some ''second''\<rparr>],
               filename = ''lock'', fd = Some 3\<rparr>, []) \<and>
   mutex_unlock \<lparr>lockedBy = Some ''a'', queue = [\<lparr>wid = ''a'', wcallback = Some ''second''\<rparr>]\<rparr> ''a''
     = (None, \<lparr>lockedBy = Some ''a'', queue = []\<rparr>, [''second'']) \<and>
   fm_unlock \<lparr>lockedBy = Some ''a'', queue = [\<lparr>wid = ''a'', wcallback = Some ''second''\<rparr>],
               filename = ''lock'', fd = Some 3\<rparr> ''a''
     = (None, \<lparr>lockedBy = Some ''a'', queue = [], filename = ''lock'', fd = Some 3\<rparr>, [''second''])"
proof -
  let ?m = "\<lparr>lockedBy = Some ''a'', queue = ([] :: string waiter list)\<rparr>"
  let ?fm = "\<lparr>lockedBy = Some ''a'', queue = ([] :: string waiter list), filename = ''lock'', fd = Some (3::nat)\<rparr>"
  have "lockedBy ?m = Some ''a''" "lockedBy ?fm = Some ''a''" "''a'' \<noteq> []"
    by simp_all
  from reentrant_lock_is_queued [OF this, of "Some ''second''" "Inr 3"]
  have "mutex_lock ?m ''a'' (Some ''second'')
          = (?m\<lparr>queue := queue ?m @ [\<lparr>wid = ''a'', wcallback = Some ''second''\<rparr>]\<rparr>, [])"
    and "fm_lock ?fm ''a'' (Some ''second'') (Inr 3)
          = (None, ?fm\<lparr>queue := queue ?fm @ [\<lparr>wid = ''a'', wcallback = Some ''second''\<rparr>]\<rparr>, [])"
    and "queue ?m = [] \<longrightarrow>
           mutex_unlock (fst (mutex_lock ?m ''a'' (Some ''second''))) ''a''
             = (None, ?m, timeouts (Some ''second''))"
    and "queue ?fm = [] \<longrightarrow>
           fm_unlock (fst (snd (fm_lock ?fm ''a'' (Some ''second'') (Inr 3)))) ''a''
             = (None, ?fm, timeouts (Some ''second''))"
    by blast+
  then show ?thesis
    by (simp add: timeouts_def)
qed

text \<open>
  C10. When the holder calls \<^verbatim>\<open>unlock\<close> and waiters are queued, the call itself makes the
  earliest waiter the holder and takes it off the queue; its callback is only scheduled
  (\<^verbatim>\<open>setTimeout\<close>), so it runs later. After the call \<^verbatim>\<open>lockedBy\<close> is not \<^verbatim>\<open>null\<close>, and
  whoever calls \<^verbatim>\<open>lock\<close> before that callback runs is put behind the remaining waiters
  and is not granted anything. (The test in \<^verbatim>\<open>lock\<close> is \<^verbatim>\<open>if (this.lockedBy)\<close>, which takes
  the id of the new holder for a held lock when that id is a non-empty string.) This
  holds for both mutexes.
\<close>

theorem unlock_hands_over:
  assumes "lockedBy m = Some i" and "queue m = w # ws"
    and "lockedBy fm = Some i" and "queue fm = w # ws"
  shows "mutex_unlock m i = (None, m\<lparr>lockedBy := Some (wid w), queue := ws\<rparr>, timeouts (wcallback w)) \<and>
         fm_unlock fm i = (None, fm\<lparr>lockedBy := Some (wid w), queue := ws\<rparr>, timeouts (wcallback w)) \<and>
         lockedBy (fst (snd (mutex_unlock m i))) \<noteq> None \<and>
         lockedBy (fst (snd (fm_unlock fm i))) \<noteq> None \<and>
         (wid w \<noteq> [] \<longrightarrow>
            mutex_lock (fst (snd (mutex_unlock m i))) j cb
              = (m\<lparr>lockedBy := Some (wid w), queue := ws @ [\<lparr>wid = j, wcallback = cb\<rparr>]\<rparr>, []) \<and>
            fm_lock (fst (snd (fm_unlock fm i))) j cb opened
              = (None, fm\<lparr>lockedBy := Some (wid w), queue := ws @ [\<lparr>wid = j, wcallback = cb\<rparr>]\<rparr>, []))"
  using assms
  by (simp add: mutex_unlock_def fm_unlock_def mutex_lock_def fm_lock_def truthy_id_def)

theorem unlock_hands_over_witness:
  "mutex_unlock \<lparr>lockedBy = Some ''a'', queue = [\<lparr>wid = ''b'', wcallback = Some ''cb''\<rparr>, \<lparr>wid = ''c'', wcallback = None\<rparr>]\<rparr> ''a''
     = (None, \<lparr>lockedBy = Some ''b'', queue = [\<lparr>wid = ''c'', wcallback = None\<rparr>]\<rparr>, [''cb'']) \<and>
   fm_unlock \<lparr>lockedBy = Some ''a'', queue = [\<lparr>wid = ''b'', wcallback = Some ''cb''\<rparr>, \<lparr>wid = ''c'', wcallback = None\<rparr>],
               filename = ''lock'', fd = Some 3\<rparr> ''a''
     = (None, \<lparr>lockedBy = Some ''b'', queue = [\<lparr>wid = ''c'', wcallback = None\<rparr>], filename = ''lock'', fd = Some 3\<rparr>, [''cb'']) \<and>
   mutex_lock \<lparr>lockedBy = Some ''b'', queue = [\<lparr>wid = ''c'', wcallback = None\<rparr>]\<rparr> ''d'' (Some ''cd'')
     = (\<lparr>lockedBy = Some ''b'', queue = [\<lparr>wid = ''c'', wcallback = None\<rparr>, \<lparr>wid = ''d'', wcallback = Some ''cd''\<rparr>]\<rparr>, []) \<and>
   fm_lock \<lparr>lockedBy = Some ''b'', queue = [\<lparr>wid = ''c'', wcallback = None\<rparr>], filename = ''lock'', fd = Some 3\<rparr>
       ''d'' (Some ''cd'') (Inr 3)
     = (None, \<lparr>lockedBy = Some ''b'', queue = [\<lparr>wid = ''c'', wcallback = None\<rparr>, \<lparr>wid = ''d'', wcallback = Some ''cd''\<rparr>],
               filename = ''lock'', fd = Some 3\<rparr>, [])"
proof -
  let ?w = "\<lparr>wid = ''b'', wcallback = Some ''cb''\<rparr>"
  let ?ws = "[\<lparr>wid = ''c'', wcallback = (None :: string option)\<rparr>]"
  let ?m = "\<lparr>lockedBy = Some ''a'', queue = ?w # ?ws\<rparr>"
  let ?fm = "\<lparr>lockedBy = Some ''a'', queue = ?w # ?ws, filename = ''lock'', fd = Some (3::nat)\<rparr>"
  have "lockedBy ?m = Some ''a''" "queue ?m = ?w # ?ws" "lockedBy ?fm = Some ''a''" "queue ?fm = ?w # ?ws"
    by simp_all
  from unlock_hands_over [OF this, of "''d''" "Some ''cd''" "Inr 3"]
  have "mutex_unlock ?m ''a'' = (None, ?m\<lparr>lockedBy := Some (wid ?w), queue := ?ws\<rparr>, timeouts (wcallback ?w))"
    and "fm_unlock ?fm ''a'' = (None, ?fm\<lparr>lockedBy := Some (wid ?w), queue := ?ws\<rparr>, timeouts (wcallback ?w))"
    and "wid ?w \<noteq> [] \<longrightarrow>
            mutex_lock (fst (snd (mutex_unlock ?m ''a''))) ''d'' (Some ''cd'')
              = (?m\<lparr>lockedBy := Some (wid ?w), queue := ?ws @ [\<lparr>wid = ''d'', wcallback = Some ''cd''\<rparr>]\<rparr>, []) \<and>
            fm_lock (fst (snd (fm_unlock ?fm ''a''))) ''d'' (Some ''cd'') (Inr 3)
              = (None, ?fm\<lparr>lockedBy := Some (wid ?w), queue := ?ws @ [\<lparr>wid = ''d'', wcallback = Some ''cd''\<rparr>]\<rparr>, [])"
    by blast+
  then show ?thesis
    by (simp add: timeouts_def)
qed

text \<open>
  C4, at the input where the code departs from it. Two requests reach the file mutex
  while it is free, the second before the callback of \<^verbatim>\<open>fs.flock\<close> for the first has
  run: \<^verbatim>\<open>lockedBy\<close> is still \<^verbatim>\<open>null\<close>, so the second request is not queued either and
  calls \<^verbatim>\<open>fs.flock\<close> on the same descriptor. Both calls succeed and both callbacks are
  called: \<open>a\<close> is granted the lock, then \<open>b\<close> is, and no \<^verbatim>\<open>unlock\<close> lies between. When
  \<open>a\<close> releases, \<^verbatim>\<open>unlock\<close> throws. In the queue, two calls of \<^verbatim>\<open>push\<close> in one turn
  (\<open>burst\<close>) have their writes to the \<^verbatim>\<open>id\<close> folder in flight together, and the
  execution ends with the error thrown by the \<^verbatim>\<open>unlock\<close> of the first.
\<close>

theorem file_mutex_two_owners:
  "fm_lock (FileMutex_new ''lock'') ''a'' (Some ''ca'') (Inr 3)
     = (None, \<lparr>lockedBy = None, queue = [], filename = ''lock'', fd = Some 3\<rparr>, [Flock ''a'' (Some ''ca'')]) \<and>
   fm_lock \<lparr>lockedBy = None, queue = [], filename = ''lock'', fd = Some 3\<rparr> ''b'' (Some ''cb'') (Inr 3)
     = (None, \<lparr>lockedBy = None, queue = [], filename = ''lock'', fd = Some 3\<rparr>, [Flock ''b'' (Some ''cb'')]) \<and>
   fm_flock_done \<lparr>lockedBy = None, queue = [], filename = ''lock'', fd = Some 3\<rparr> ''a'' (Some ''ca'') True
     = (None, \<lparr>lockedBy = Some ''a'', queue = [], filename = ''lock'', fd = Some 3\<rparr>, [''ca'']) \<and>
   fm_flock_done \<lparr>lockedBy = Some ''a'', queue = [], filename = ''lock'', fd = Some 3\<rparr> ''b'' (Some ''cb'') True
     = (None, \<lparr>lockedBy = Some ''b'', queue = [], filename = ''lock'', fd = Some 3\<rparr>, [''cb'']) \<and>
   fst (fm_unlock \<lparr>lockedBy = Some ''b'', queue = ([] :: string waiter list), filename = ''lock'', fd = Some 3\<rparr> ''a'')
     = Some (InternalError not_owner_msg) \<and>
   fst (exec started (burst @ [Fire 0 Ok, Fire 1 Ok])) = Some (InternalError not_owner_msg) \<and>
   map snapshot (visited started (burst @ [Fire 0 Ok, Fire 1 Ok]))
     = [(0, None, [], [''mkdirp'']),
        (0, None, [], [''readdir running'']),
        (0, None, [], [''flock for runner-u'']),
        (0, Some ''runner-u'', [], [''readdir pending for runner-u'']),
        (0, None, [], []),
        (0, None, [], [''flock for u+'']),
        (0, None, [], [''flock for u+'', ''flock for u++'']),
        (0, Some ''u+'', [], [''flock for u++'', ''write id/u+.json'']),
        (0, Some ''u++'', [], [''write id/u+.json'', ''write id/u++.json'']),
        (0, Some ''u++'', [], [''write id/u++.json'', ''write pending/u+.json'']),
        (0, Some ''u++'', [], [''write id/u++.json''])]"
  by code_simp

section \<open>Properties of the task queue\<close>

text \<open>
  C6. When \<^verbatim>\<open>params\<close> is \<^verbatim>\<open>null\<close> or \<^verbatim>\<open>undefined\<close>, \<^verbatim>\<open>push\<close> throws a \<^verbatim>\<open>ParamError\<close> to its
  caller, in the call itself, and the state after the call is the state before it: no
  task is made, nothing is registered with the event loop, the three folders and the
  running tasks are untouched. An execution ends there with that error.
\<close>

theorem push_without_params:
  "push s JNull now = (Some invalid_task, s) \<and>
   push s JUndefined now = (Some invalid_task, s) \<and>
   step s (Push JNull now) = (Some invalid_task, s) \<and>
   step s (Push JUndefined now) = (Some invalid_task, s) \<and>
   exec s (Push JNull now # turns) = (Some invalid_task, s) \<and>
   exec s (Push JUndefined now # turns) = (Some invalid_task, s) \<and>
   cls invalid_task = ParamErrorC"
  by (simp add: push_def step_def invalid_task_def ParamError_def)

text \<open>
  C7, as the claim states it: on success the result the worker returned is attached to
  the record. It is not when the worker returns \<^verbatim>\<open>0\<close>, \<^verbatim>\<open>false\<close> or the empty string: the
  source attaches it under \<^verbatim>\<open>if (result)\<close>. The worker calls back without error and with
  the result \<^verbatim>\<open>0\<close>; the task ends with status \<^verbatim>\<open>success\<close> and no \<^verbatim>\<open>result\<close>, in memory and in
  the record sent to the \<^verbatim>\<open>id\<close> folder.
\<close>

theorem falsy_result_counterexample:
  "fst (worker_done a_state 0 None (JNum 0) ''t2'') = None \<and>
   deref (snd (worker_done a_state 0 None (JNum 0) ''t2'')) 0
     = Some (a_task\<lparr>status := Success, dateFinished := Some ''t2''\<rparr>) \<and>
   status (complete_task a_task None (JNum 0) ''t2'') = Success \<and>
   result (complete_task a_task None (JNum 0) ''t2'') = None \<and>
   result (complete_task a_task None (JBool False) ''t2'') = None \<and>
   result (complete_task a_task None (JStr []) ''t2'') = None \<and>
   events (snd (worker_done a_state 0 None (JNum 0) ''t2''))
     = [EvWriteFile IdDir ''j1.json''
          (Json (a_task\<lparr>status := Success, dateFinished := Some ''t2''\<rparr>)) (RunSavedId 0)]"
  by code_simp

text \<open>
  C7, amended. When the callback given to the worker is called for a running task, the
  task gets \<^verbatim>\<open>dateFinished\<close> in every case. With an error: status \<^verbatim>\<open>failure\<close>, \<^verbatim>\<open>error\<close> the
  string of the error, \<^verbatim>\<open>errorCode\<close> 400 for a \<^verbatim>\<open>ParamError\<close>, 503 for a \<^verbatim>\<open>ProxyError\<close> and
  500 for any other error. Without one: status \<^verbatim>\<open>success\<close>, no \<^verbatim>\<open>error\<close> or \<^verbatim>\<open>errorCode\<close>
  added, and \<^verbatim>\<open>result\<close> set to what the worker returned when that value is truthy; a falsy
  value (\<^verbatim>\<open>undefined\<close>, \<^verbatim>\<open>null\<close>, \<^verbatim>\<open>false\<close>, \<^verbatim>\<open>0\<close>, the empty string) leaves \<^verbatim>\<open>result\<close> as it
  was. This record replaces the task in memory, the task leaves \<^verbatim>\<open>runningTasks\<close>, and the
  same record is what is sent to the \<^verbatim>\<open>id\<close> folder, where it is found once the write has
  succeeded.
\<close>

theorem terminal_record:
  assumes "deref s r = Some t" and "task_id t \<noteq> []"
  shows "(let t' = complete_task t err res now;
              s' = snd (worker_done s r err res now)
          in dateFinished t' = Some now \<and>
             (\<forall>e. err = Some e \<longrightarrow>
                status t' = Failure \<and> error t' = Some (toString e) \<and>
                (cls e = ParamErrorC \<longrightarrow> errorCode t' = Some 400) \<and>
                (cls e = ProxyErrorC \<longrightarrow> errorCode t' = Some 503) \<and>
                (cls e \<noteq> ParamErrorC \<and> cls e \<noteq> ProxyErrorC \<longrightarrow> errorCode t' = Some 500)) \<and>
             (err = None \<longrightarrow>
                status t' = Success \<and> error t' = error t \<and> errorCode t' = errorCode t \<and>
                (truthy res \<longrightarrow> result t' = Some res) \<and>
                (\<not> truthy res \<longrightarrow> result t' = result t)) \<and>
             fst (worker_done s r err res now) = None \<and>
             deref s' r = Some t' \<and>
             runningTasks s' = removeAll r (runningTasks s) \<and>
             events s' = events s @ [EvWriteFile IdDir (file_name (task_id t)) (Json t') (RunSavedId r)] \<and>
             (folders_exist d \<longrightarrow>
                fst (save_done d IdDir (file_name (task_id t)) (Json t') True) = None \<and>
                map_of (idDir (snd (save_done d IdDir (file_name (task_id t)) (Json t') True)))
                  (file_name (task_id t)) = Some (Json t')))"
proof -
  have id: "task_id (complete_task t err res now) = task_id t"
    by (simp add: complete_task_def split: option.split)
  have fields: "dateFinished (complete_task t err res now) = Some now"
    "\<And>e. err = Some e \<Longrightarrow> status (complete_task t err res now) = Failure \<and>
        error (complete_task t err res now) = Some (toString e) \<and>
        errorCode (complete_task t err res now) =
          Some (if cls e = ParamErrorC then 400 else if cls e = ProxyErrorC then 503 else 500)"
    "err = None \<Longrightarrow> status (complete_task t err res now) = Success \<and>
        error (complete_task t err res now) = error t \<and>
        errorCode (complete_task t err res now) = errorCode t \<and>
        result (complete_task t err res now) = (if truthy res then Some res else result t)"
    by (simp_all add: complete_task_def split: option.split)
  have r: "r < length (objs s)"
    using assms(1) by (simp add: deref_def split: if_splits)
  have wd: "worker_done s r err res now =
      (None, register (s\<lparr>objs := (objs s)[r := complete_task t err res now],
                          runningTasks := removeAll r (runningTasks s)\<rparr>)
               [EvWriteFile IdDir (file_name (task_id t)) (Json (complete_task t err res now)) (RunSavedId r)])"
    using assms id by (simp add: worker_done_def saveTaskToFolder_def Let_def)
  have sv: "folders_exist d \<Longrightarrow>
      save_done d IdDir n c True = (None, d\<lparr>idDir := dir_write (idDir d) n c\<rparr>)" for n c
    by (simp add: save_done_def fs_writeFile_def)
  show ?thesis
    unfolding Let_def wd
    using fields r by (auto simp: register_def deref_def sv map_of_dir_write)
qed

text \<open>
  C7 at three callbacks for the same running task: a \<^verbatim>\<open>ProxyError\<close>, a success with the
  result \<^verbatim>\<open>'built'\<close>, and a success with the result \<^verbatim>\<open>0\<close>.
\<close>

theorem terminal_record_witness:
  "complete_task a_task (Some (ProxyError ''upstream is down'')) JUndefined ''t2''
     = a_task\<lparr>status := Failure, error := Some ''proxy error: upstream is down'',
              errorCode := Some 503, dateFinished := Some ''t2''\<rparr> \<and>
   fst (worker_done a_state 0 (Some (ProxyError ''upstream is down'')) JUndefined ''t2'') = None \<and>
   runningTasks (snd (worker_done a_state 0 (Some (ProxyError ''upstream is down'')) JUndefined ''t2'')) = [] \<and>
   events (snd (worker_done a_state 0 (Some (ProxyError ''upstream is down'')) JUndefined ''t2''))
     = [EvWriteFile IdDir ''j1.json''
          (Json (a_task\<lparr>status := Failure, error := Some ''proxy error: upstream is down'',
                        errorCode := Some 503, dateFinished := Some ''t2''\<rparr>)) (RunSavedId 0)] \<and>
   map_of (idDir (snd (save_done ready_disk IdDir ''j1.json''
          (Json (a_task\<lparr>status := Failure, error := Some ''proxy error: upstream is down'',
                        errorCode := Some 503, dateFinished := Some ''t2''\<rparr>)) True))) ''j1.json''
     = Some (Json (a_task\<lparr>status := Failure, error := Some ''proxy error: upstream is down'',
                        errorCode := Some 503, dateFinished := Some ''t2''\<rparr>)) \<and>
   complete_task a_task None (JStr ''built'') ''t2''
     = a_task\<lparr>status := Success, result := Some (JStr ''built''), dateFinished := Some ''t2''\<rparr> \<and>
   complete_task a_task None (JNum 0) ''t2''
     = a_task\<lparr>status := Success, dateFinished := Some ''t2''\<rparr> \<and>
   runningTasks (snd (worker_done a_state 0 None (JStr ''built'') ''t2'')) = [] \<and>
   events (snd (worker_done a_state 0 None (JStr ''built'') ''t2''))
     = [EvWriteFile IdDir ''j1.json''
          (Json (a_task\<lparr>status := Success, result := Some (JStr ''built''),
                        dateFinished := Some ''t2''\<rparr>)) (RunSavedId 0)]"
proof -
  let ?e = "ProxyError ''upstream is down''"
  let ?t' = "complete_task a_task (Some ?e) JUndefined ''t2''"
  let ?t1 = "complete_task a_task None (JStr ''built'') ''t2''"
  let ?t0 = "complete_task a_task None (JNum 0) ''t2''"
  have h: "deref a_state 0 = Some a_task" "task_id a_task \<noteq> []"
    by (simp_all add: deref_def a_state_def a_task_def)
  have n: "file_name (task_id a_task) = ''j1.json''"
    by (simp add: file_name_def a_task_def)
  have p: "cls ?e = ProxyErrorC" "toString ?e = ''proxy error: upstream is down''"
    by (simp_all add: ProxyError_def toString_def)
  note tr = terminal_record [OF h, of "Some ?e" JUndefined "''t2''" ready_disk, unfolded Let_def]
  note tr1 = terminal_record [OF h, of None "JStr ''built''" "''t2''" ready_disk, unfolded Let_def]
  note tr0 = terminal_record [OF h, of None "JNum 0" "''t2''" ready_disk, unfolded Let_def]
  from tr p have f: "status ?t' = Failure" "error ?t' = Some ''proxy error: upstream is down''"
    "errorCode ?t' = Some 503" "dateFinished ?t' = Some ''t2''"
    by auto
  from tr1 have f1: "status ?t1 = Success" "error ?t1 = error a_task"
    "errorCode ?t1 = errorCode a_task" "result ?t1 = Some (JStr ''built'')"
    "dateFinished ?t1 = Some ''t2''"
    by simp_all
  from tr0 have f0: "status ?t0 = Success" "error ?t0 = error a_task"
    "errorCode ?t0 = errorCode a_task" "result ?t0 = result a_task"
    "dateFinished ?t0 = Some ''t2''"
    by simp_all
  have u: "task_id ?t' = task_id a_task" "params ?t' = params a_task"
    "dateCreated ?t' = dateCreated a_task" "result ?t' = result a_task"
    "task_id ?t1 = task_id a_task" "params ?t1 = params a_task"
    "dateCreated ?t1 = dateCreated a_task"
    "task_id ?t0 = task_id a_task" "params ?t0 = params a_task"
    "dateCreated ?t0 = dateCreated a_task"
    by (simp_all add: complete_task_def)
  have c: "?t' = a_task\<lparr>status := Failure, error := Some ''proxy error: upstream is down'',
              errorCode := Some 503, dateFinished := Some ''t2''\<rparr>"
    using f u by (intro task.equality) simp_all
  have c1: "?t1 = a_task\<lparr>status := Success, result := Some (JStr ''built''),
              dateFinished := Some ''t2''\<rparr>"
    using f1 u by (intro task.equality) simp_all
  have c0: "?t0 = a_task\<lparr>status := Success, dateFinished := Some ''t2''\<rparr>"
    using f0 u by (intro task.equality) simp_all
  from tr
  have w: "fst (worker_done a_state 0 (Some ?e) JUndefined ''t2'') = None"
    "runningTasks (snd (worker_done a_state 0 (Some ?e) JUndefined ''t2'')) = removeAll 0 (runningTasks a_state)"
    "events (snd (worker_done a_state 0 (Some ?e) JUndefined ''t2''))
       = events a_state @ [EvWriteFile IdDir (file_name (task_id a_task)) (Json ?t') (RunSavedId 0)]"
    "folders_exist ready_disk \<longrightarrow>
       map_of (idDir (snd (save_done ready_disk IdDir (file_name (task_id a_task)) (Json ?t') True)))
         (file_name (task_id a_task)) = Some (Json ?t')"
    by blast+
  from tr1
  have w1: "runningTasks (snd (worker_done a_state 0 None (JStr ''built'') ''t2''))
              = removeAll 0 (runningTasks a_state)"
    "events (snd (worker_done a_state 0 None (JStr ''built'') ''t2''))
       = events a_state @ [EvWriteFile IdDir (file_name (task_id a_task)) (Json ?t1) (RunSavedId 0)]"
    by blast+
  from w w1 show ?thesis
    unfolding c c1 c0 n by (simp add: a_state_def ready_disk_def)
qed

text \<open>
  C8, as the claim states it: removing a job whose file is not in the folder reports no
  error. It reports one: the \<^verbatim>\<open>running\<close> folder is empty, \<^verbatim>\<open>removeTaskFromFolder\<close> calls
  \<^verbatim>\<open>fs.unlink\<close>, which fails, and the callback receives an \<^verbatim>\<open>InternalError\<close>.
\<close>

theorem remove_missing_file_counterexample:
  "removeTaskFromFolder (Some a_task) RunningDir (RunRemovedRunning 0)
     = Some (EvUnlink RunningDir ''j1.json'' (RunRemovedRunning 0)) \<and>
   map_of (get_dir ready_disk RunningDir) ''j1.json'' = None \<and>
   remove_done ready_disk RunningDir ''j1.json'' True = (Some save_failed, ready_disk) \<and>
   cls save_failed = InternalErrorC"
  by (simp add: removeTaskFromFolder_def a_task_def file_name_def ready_disk_def remove_done_def
        fs_unlink_def save_failed_def InternalError_def)

text \<open>
  C8, amended. For every job with an id and every folder, \<^verbatim>\<open>removeTaskFromFolder\<close> calls
  \<^verbatim>\<open>fs.unlink\<close> on the file of that id. When the file is missing, the callback receives
  an \<^verbatim>\<open>InternalError\<close> and the store is unchanged, whatever else happens; when the file is
  there and \<^verbatim>\<open>fs.unlink\<close> succeeds, the callback receives no error and the file is gone.
\<close>

theorem remove_reports:
  assumes "task_id t \<noteq> []"
  shows "removeTaskFromFolder (Some t) f k = Some (EvUnlink f (file_name (task_id t)) k) \<and>
         (map_of (get_dir d f) (file_name (task_id t)) = None \<longrightarrow>
            remove_done d f (file_name (task_id t)) ok = (Some save_failed, d) \<and>
            run_event (s\<lparr>store := d\<rparr>) (EvUnlink f (file_name (task_id t)) k) rp
              = call_wr k (s\<lparr>store := d\<rparr>) (Some save_failed)) \<and>
         (map_of (get_dir d f) (file_name (task_id t)) \<noteq> None \<longrightarrow>
            fst (remove_done d f (file_name (task_id t)) True) = None \<and>
            map_of (get_dir (snd (remove_done d f (file_name (task_id t)) True)) f)
              (file_name (task_id t)) = None) \<and>
         cls save_failed = InternalErrorC"
  using assms
  by (auto simp: removeTaskFromFolder_def remove_done_def fs_unlink_def run_event_def
        save_failed_def InternalError_def get_set_dir map_of_dir_remove)

theorem remove_reports_witness:
  "removeTaskFromFolder (Some a_task) PendingDir (CheckRemovedPending ''r'' 0)
     = Some (EvUnlink PendingDir ''j1.json'' (CheckRemovedPending ''r'' 0)) \<and>
   remove_done ready_disk PendingDir ''j1.json'' True = (Some save_failed, ready_disk) \<and>
   fst (remove_done (ready_disk\<lparr>pendingDir := [(''j1.json'', Json a_task)]\<rparr>) PendingDir ''j1.json'' True) = None \<and>
   map_of (get_dir (snd (remove_done (ready_disk\<lparr>pendingDir := [(''j1.json'', Json a_task)]\<rparr>)
                           PendingDir ''j1.json'' True)) PendingDir) ''j1.json'' = None"
proof -
  let ?d = "ready_disk\<lparr>pendingDir := [(''j1.json'', Json a_task)]\<rparr>"
  have h: "task_id a_task \<noteq> []"
    by (simp add: a_task_def)
  have n: "file_name (task_id a_task) = ''j1.json''"
    by (simp add: file_name_def a_task_def)
  have m1: "map_of (get_dir ready_disk PendingDir) ''j1.json'' = None"
    by (simp add: ready_disk_def)
  have m2: "map_of (get_dir ?d PendingDir) ''j1.json'' \<noteq> None"
    by simp
  from remove_reports [OF h, of PendingDir "CheckRemovedPending ''r'' 0" ready_disk True a_state Ok]
  have a: "removeTaskFromFolder (Some a_task) PendingDir (CheckRemovedPending ''r'' 0)
             = Some (EvUnlink PendingDir ''j1.json'' (CheckRemovedPending ''r'' 0))"
    and b: "remove_done ready_disk PendingDir ''j1.json'' True = (Some save_failed, ready_disk)"
    using m1 unfolding n by blast+
  from remove_reports [OF h, of PendingDir "CheckRemovedPending ''r'' 0" ?d True a_state Ok]
  have c: "fst (remove_done ?d PendingDir ''j1.json'' True) = None"
    and d: "map_of (get_dir (snd (remove_done ?d PendingDir ''j1.json'' True)) PendingDir) ''j1.json'' = None"
    using m2 unfolding n by blast+
  from a b c d show ?thesis
    by blast
qed

text \<open>
  C1, at the input where the code departs from it. The queue is made with
  \<^verbatim>\<open>maxItems: 1\<close> and \<^verbatim>\<open>push\<close> is called twice (\<open>two_pushes\<close>). The lock is never asked for
  by two requests at once and no call fails. Each \<^verbatim>\<open>push\<close> defers a call of
  \<^verbatim>\<open>checkNextTask\<close>; both calls test the limit while \<^verbatim>\<open>runningTasks\<close> is still empty, since
  the first one has yet to read the pending file when the second one runs. At the end
  \<^verbatim>\<open>runningTasks\<close> holds two tasks, both have status \<^verbatim>\<open>running\<close> in memory and in the \<^verbatim>\<open>id\<close>
  folder, both are in the \<^verbatim>\<open>running\<close> folder, and the worker has been started for both.
\<close>

theorem running_jobs_exceed_maxItems:
  "fst (exec started two_pushes) = None \<and>
   maxItems (snd (exec started two_pushes)) = 1 \<and>
   getNbRunningTasks (snd (exec started two_pushes)) = 2 \<and>
   map status (objs (snd (exec started two_pushes))) = [Running, Running] \<and>
   index_status (snd (exec started two_pushes)) (uuid_v1 1) = Some Running \<and>
   index_status (snd (exec started two_pushes)) (uuid_v1 2) = Some Running \<and>
   map fst (runningDir (store (snd (exec started two_pushes))))
     = [file_name (uuid_v1 1), file_name (uuid_v1 2)] \<and>
   events (snd (exec started two_pushes)) = [EvWorker 0 job_a, EvWorker 1 job_b] \<and>
   map snapshot (visited started two_pushes)
     = [(0, None, [], [''mkdirp'']),
        (0, None, [], [''readdir running'']),
        (0, None, [], [''flock for runner-u'']),
        (0, Some ''runner-u'', [], [''readdir pending for runner-u'']),
        (0, None, [], []),
        (0, None, [], [''flock for u+'']),
        (0, Some ''u+'', [], [''write id/u+.json'']),
        (0, Some ''u+'', [''u++''], [''write id/u+.json'']),
        (0, Some ''u+'', [''u++''], [''write pending/u+.json'']),
        (0, Some ''u++'', [], [''lock callback of u++'', ''checkNextTask'']),
        (0, Some ''u++'', [], [''checkNextTask'', ''write id/u++.json'']),
        (0, Some ''u++'', [''runner-u+++''], [''write id/u++.json'']),
        (0, Some ''u++'', [''runner-u+++''], [''write pending/u++.json'']),
        (0, Some ''runner-u+++'', [], [''lock callback of runner-u+++'', ''checkNextTask'']),
        (0, Some ''runner-u+++'', [], [''checkNextTask'', ''readdir pending for runner-u+++'']),
        (0, Some ''runner-u+++'', [''runner-u++++''], [''readdir pending for runner-u+++'']),
        (0, Some ''runner-u+++'', [''runner-u++++''], [''read pending/u+.json for runner-u+++'']),
        (1, Some ''runner-u+++'', [''runner-u++++''], [''write id/u+.json'']),
        (1, Some ''runner-u+++'', [''runner-u++++''], [''write running/u+.json'']),
        (1, Some ''runner-u+++'', [''runner-u++++''], [''unlink pending/u+.json'']),
        (1, Some ''runner-u++++'', [], [''lock callback of runner-u++++'', ''runTask'']),
        (1, Some ''runner-u++++'', [], [''runTask'', ''readdir pending for runner-u++++'']),
        (1, Some ''runner-u++++'', [], [''readdir pending for runner-u++++'', ''worker'']),
        (1, Some ''runner-u++++'', [], [''worker'', ''read pending/u++.json for runner-u++++'']),
        (2, Some ''runner-u++++'', [], [''worker'', ''write id/u++.json'']),
        (2, Some ''runner-u++++'', [], [''worker'', ''write running/u++.json'']),
        (2, Some ''runner-u++++'', [], [''worker'', ''unlink pending/u++.json'']),
        (2, None, [], [''worker'', ''runTask'']),
        (2, None, [], [''worker'', ''worker''])]"
  by code_simp

text \<open>
  C2, at the input where the code departs from it. One job is pushed, dequeued and run
  (\<open>one_job\<close>); the worker has called back and the lock is free. The two turns that
  follow are the bookkeeping of \<^verbatim>\<open>runTask\<close>: the record in the \<^verbatim>\<open>id\<close> folder is overwritten
  (status \<^verbatim>\<open>running\<close> becomes \<^verbatim>\<open>success\<close>), then the file in the \<^verbatim>\<open>running\<close> folder is
  removed. The lock is free before, between and after the two.
\<close>

theorem completion_writes_without_lock:
  "fst (exec started one_job) = None \<and>
   events (snd (exec started one_job))
     = [EvWriteFile IdDir (file_name (uuid_v1 1))
          (Json \<lparr>task_id = uuid_v1 1, params = job_a, status = Success, dateCreated = ''t1'',
                 error = None, errorCode = None, result = None, dateFinished = Some ''t2''\<rparr>)
          (RunSavedId 0)] \<and>
   map (\<lambda>s. (lockedBy (mutex s), index_status s (uuid_v1 1), map fst (runningDir (store s))))
       (visited (snd (exec started one_job)) [Fire 0 Ok, Fire 0 Ok])
     = [(None, Some Running, [file_name (uuid_v1 1)]),
        (None, Some Success, [file_name (uuid_v1 1)]),
        (None, Some Success, [])] \<and>
   map snapshot (visited started (one_job @ [Fire 0 Ok, Fire 0 Ok]))
     = [(0, None, [], [''mkdirp'']),
        (0, None, [], [''readdir running'']),
        (0, None, [], [''flock for runner-u'']),
        (0, Some ''runner-u'', [], [''readdir pending for runner-u'']),
        (0, None, [], []),
        (0, None, [], [''flock for u+'']),
        (0, Some ''u+'', [], [''write id/u+.json'']),
        (0, Some ''u+'', [], [''write pending/u+.json'']),
        (0, None, [], [''checkNextTask'']),
        (0, None, [], [''flock for runner-u++'']),
        (0, Some ''runner-u++'', [], [''readdir pending for runner-u++'']),
        (0, Some ''runner-u++'', [], [''read pending/u+.json for runner-u++'']),
        (1, Some ''runner-u++'', [], [''write id/u+.json'']),
        (1, Some ''runner-u++'', [], [''write running/u+.json'']),
        (1, Some ''runner-u++'', [], [''unlink pending/u+.json'']),
        (1, None, [], [''runTask'']),
        (1, None, [], [''worker'']),
        (0, None, [], [''write id/u+.json'']),
        (0, None, [], [''unlink running/u+.json'']),
        (0, None, [], [''checkNextTask''])]"
  by code_simp

text \<open>
  C3, at the input where the code departs from it (\<open>racing_checks\<close>, then
  \<open>late_write\<close>). Two calls of \<^verbatim>\<open>checkNextTask\<close> are granted the lock together (the
  defect of the file mutex shown for C4) and both dequeue the same job. One of them runs
  it to \<^verbatim>\<open>success\<close>; then the write of the other, which says \<^verbatim>\<open>running\<close>, reaches the \<^verbatim>\<open>id\<close>
  folder. The status read from the \<^verbatim>\<open>id\<close> folder goes from \<^verbatim>\<open>success\<close> back to \<^verbatim>\<open>running\<close>.
\<close>

theorem status_leaves_success:
  "fst (exec started (racing_checks @ late_write)) = None \<and>
   status_history started (racing_checks @ late_write) (uuid_v1 0)
     = [None, Some Pending, Some Running, Some Success, Some Running] \<and>
   index_status (snd (exec started racing_checks)) (uuid_v1 0) = Some Success \<and>
   index_status (snd (exec started (racing_checks @ late_write))) (uuid_v1 0) = Some Running \<and>
   map snapshot (visited started (racing_checks @ late_write))
     = [(0, None, [], [''mkdirp'']),
        (0, None, [], [''readdir running'']),
        (0, None, [], [''readdir running'', ''flock for u'']),
        (0, Some ''u'', [], [''readdir running'', ''write id/u.json'']),
        (0, Some ''u'', [], [''readdir running'', ''write pending/u.json'']),
        (0, None, [], [''readdir running'', ''checkNextTask'']),
        (0, None, [], [''checkNextTask'', ''flock for runner-u+'']),
        (0, None, [], [''flock for runner-u+'', ''flock for runner-u++'']),
        (0, Some ''runner-u+'', [], [''flock for runner-u++'', ''readdir pending for runner-u+'']),
        (0, Some ''runner-u++'', [], [''readdir pending for runner-u+'', ''readdir pending for runner-u++'']),
        (0, Some ''runner-u++'', [], [''readdir pending for runner-u++'', ''read pending/u.json for runner-u+'']),
        (0, Some ''runner-u++'', [], [''read pending/u.json for runner-u+'', ''read pending/u.json for runner-u++'']),
        (1, Some ''runner-u++'', [], [''read pending/u.json for runner-u++'', ''write id/u.json'']),
        (2, Some ''runner-u++'', [], [''write id/u.json'', ''write id/u.json'']),
        (2, Some ''runner-u++'', [], [''write id/u.json'', ''write running/u.json'']),
        (2, Some ''runner-u++'', [], [''write id/u.json'', ''unlink pending/u.json'']),
        (2, None, [], [''write id/u.json'', ''runTask'']),
        (2, None, [], [''write id/u.json'', ''worker'']),
        (1, None, [], [''write id/u.json'', ''write id/u.json'']),
        (1, None, [], [''write id/u.json'', ''unlink running/u.json'']),
        (1, None, [], [''unlink running/u.json'', ''write running/u.json''])]"
  by code_simp

end
